theory Spec2Isabelle
  imports Complex_Main "HOL-Library.Word" "HOL-Library.AList"
begin

section \<open>JavaScript values\<close>

text \<open>
  A JavaScript string is a sequence of 16-bit code units. \<open>js\<close> turns an ASCII literal
  of the source into that representation.
\<close>

type_synonym jschar = "16 word"
type_synonym jsstring = "jschar list"

definition js :: "string \<Rightarrow> jsstring" where
  "js s = map of_char s"

text \<open>
  A number is a double. The validators only compare numbers and test them for
  finiteness, so a finite double is represented by the rational it denotes
  (\<open>-0\<close> and \<open>+0\<close> compare equal and are both \<open>Finite 0\<close>).
\<close>

datatype jsnum = NaN | PosInfinity | NegInfinity | Finite rat

text \<open>
  Objects and arrays live in a store and are referred to by address, so that an
  assignment to a property of the input is visible to whoever holds the input.
  The values are those that a parsed JSON message (and the repository's tests) can
  hold; there are no functions or symbols.
\<close>

datatype jsval =
    JUndefined
  | JNull
  | JBool bool
  | JNum jsnum
  | JStr jsstring
  | JRef nat

datatype jsobj =
    JObject "(jsstring \<times> jsval) list"
  | JArray "jsval list"

type_synonym heap = "nat \<Rightarrow> jsobj option"

text \<open>\<open>!input\<close> is true of the falsy values.\<close>

fun truthy :: "jsval \<Rightarrow> bool" where
  "truthy JUndefined = False"
| "truthy JNull = False"
| "truthy (JBool b) = b"
| "truthy (JNum NaN) = False"
| "truthy (JNum (Finite q)) = (q \<noteq> 0)"
| "truthy (JNum _) = True"
| "truthy (JStr s) = (s \<noteq> [])"
| "truthy (JRef a) = True"

datatype jstype = TUndefined | TObject | TBoolean | TNumber | TString

fun typeof :: "jsval \<Rightarrow> jstype" where
  "typeof JUndefined = TUndefined"
| "typeof JNull = TObject"
| "typeof (JBool b) = TBoolean"
| "typeof (JNum n) = TNumber"
| "typeof (JStr s) = TString"
| "typeof (JRef a) = TObject"

text \<open>
  \<open>get_prop h v k\<close> is the property read \<open>v.k\<close>. The validators read a property only
  after \<open>!input || typeof input !== 'object'\<close> has let the value through, so \<open>v\<close> is a
  reference there; the names they read are no property of an array.
\<close>

definition get_prop :: "heap \<Rightarrow> jsval \<Rightarrow> jsstring \<Rightarrow> jsval" where
  "get_prop h v k =
     (case v of
        JRef a \<Rightarrow>
          (case h a of
             Some (JObject kvs) \<Rightarrow> (case map_of kvs k of Some x \<Rightarrow> x | None \<Rightarrow> JUndefined)
           | _ \<Rightarrow> JUndefined)
      | _ \<Rightarrow> JUndefined)"

text \<open>\<open>set_prop h v k x\<close> is the store after the assignment \<open>v.k = x\<close>.\<close>

definition set_prop :: "heap \<Rightarrow> jsval \<Rightarrow> jsstring \<Rightarrow> jsval \<Rightarrow> heap" where
  "set_prop h v k x =
     (case v of
        JRef a \<Rightarrow>
          (case h a of
             Some (JObject kvs) \<Rightarrow> h(a \<mapsto> JObject (AList.update k x kvs))
           | _ \<Rightarrow> h)
      | _ \<Rightarrow> h)"

text \<open>\<open>Array.isArray(v)\<close>, giving the elements.\<close>

definition as_array :: "heap \<Rightarrow> jsval \<Rightarrow> jsval list option" where
  "as_array h v =
     (case v of
        JRef a \<Rightarrow> (case h a of Some (JArray xs) \<Rightarrow> Some xs | _ \<Rightarrow> None)
      | _ \<Rightarrow> None)"

section \<open>String operations\<close>

text \<open>\<open>s.replace(/c/g, rep)\<close> for a single character \<open>c\<close>.\<close>

definition replace_all :: "jschar \<Rightarrow> jsstring \<Rightarrow> jsstring \<Rightarrow> jsstring" where
  "replace_all c rep s = concat (map (\<lambda>x. if x = c then rep else [x]) s)"

text \<open>
  \<open>String.prototype.trim\<close> strips white space and line terminators: TAB, LF, VT, FF, CR,
  SP, NBSP, U+1680, U+2000 to U+200A, U+2028, U+2029, U+202F, U+205F, U+3000, U+FEFF.
\<close>

definition white_space :: "jschar \<Rightarrow> bool" where
  "white_space c \<longleftrightarrow>
     c = 0x09 \<or> c = 0x0A \<or> c = 0x0B \<or> c = 0x0C \<or> c = 0x0D \<or> c = 0x20 \<or> c = 0xA0 \<or>
     c = 0x1680 \<or> (0x2000 \<le> c \<and> c \<le> 0x200A) \<or> c = 0x2028 \<or> c = 0x2029 \<or>
     c = 0x202F \<or> c = 0x205F \<or> c = 0x3000 \<or> c = 0xFEFF"

definition trim :: "jsstring \<Rightarrow> jsstring" where
  "trim s = rev (dropWhile white_space (rev (dropWhile white_space s)))"

text \<open>
  \<open>s.slice(0, n)\<close> for an integral \<open>n\<close>: a negative end counts from the end of the
  string. (\<open>slice\<close> truncates a fractional end to an integer first, so a fractional \<open>n\<close>
  acts as its integral part.)
\<close>

definition slice0 :: "jsstring \<Rightarrow> int \<Rightarrow> jsstring" where
  "slice0 s n = (if n < 0 then take (nat (int (length s) + n)) s else take (nat n) s)"

section \<open>Validation\<close>

subsection \<open>Constants\<close>

definition MAX_STRING_LENGTH :: int where "MAX_STRING_LENGTH = 500"
definition MAX_NAME_LENGTH :: int where "MAX_NAME_LENGTH = 100"
definition MAX_DESCRIPTION_LENGTH :: int where "MAX_DESCRIPTION_LENGTH = 1000"
definition MAX_ID_LENGTH :: int where "MAX_ID_LENGTH = 50"
definition MAX_ACCESS_POINTS :: nat where "MAX_ACCESS_POINTS = 20"
definition MAX_CONNECTIONS_PER_NODE :: nat where "MAX_CONNECTIONS_PER_NODE = 10"
definition MIN_LEVEL :: rat where "MIN_LEVEL = -1"
definition MAX_LEVEL :: rat where "MAX_LEVEL = 25"
definition MIN_INTENSITY :: rat where "MIN_INTENSITY = 0"
definition MAX_INTENSITY :: rat where "MAX_INTENSITY = 1"
definition MAX_POSITION_VALUE :: rat where "MAX_POSITION_VALUE = 10000"

subsection \<open>Sanitizers\<close>

text \<open>The class \<open>[\x00-\x08\x0B\x0C\x0E-\x1F\x7F]\<close>.\<close>

definition control_char :: "jschar \<Rightarrow> bool" where
  "control_char c \<longleftrightarrow>
     c \<le> 0x08 \<or> c = 0x0B \<or> c = 0x0C \<or> (0x0E \<le> c \<and> c \<le> 0x1F) \<or> c = 0x7F"

definition escape_html :: "jsstring \<Rightarrow> jsstring" where
  "escape_html s =
     replace_all 0x27 (js ''&#x27;'')
       (replace_all 0x22 (js ''&quot;'')
          (replace_all 0x3E (js ''&gt;'')
             (replace_all 0x3C (js ''&lt;'')
                (replace_all 0x26 (js ''&amp;'') s))))"

text \<open>
  \<open>sanitizeString(input, maxLength)\<close>; a call without \<open>maxLength\<close> passes
  \<open>MAX_STRING_LENGTH\<close>. The five \<open>replace\<close> calls that escape HTML run in the order of
  the source, the ampersand first.
\<close>

definition sanitizeString :: "jsval \<Rightarrow> int \<Rightarrow> jsstring option" where
  "sanitizeString input maxLength =
     (case input of
        JStr s \<Rightarrow>
          (let cleaned = filter (\<lambda>c. \<not> control_char c) s;
               cleaned = escape_html cleaned;
               cleaned = slice0 (trim cleaned) maxLength
           in if cleaned = [] then None else Some cleaned)
      | _ \<Rightarrow> None)"

text \<open>The class \<open>[a-zA-Z0-9_-]\<close>.\<close>

definition id_char :: "jschar \<Rightarrow> bool" where
  "id_char c \<longleftrightarrow>
     (0x61 \<le> c \<and> c \<le> 0x7A) \<or> (0x41 \<le> c \<and> c \<le> 0x5A) \<or> (0x30 \<le> c \<and> c \<le> 0x39) \<or>
     c = 0x5F \<or> c = 0x2D"

text \<open>\<open>/^[a-zA-Z0-9_-]+$/.test(s)\<close>; without the \<open>m\<close> flag, \<open>$\<close> is the end of input.\<close>

definition id_pattern :: "jsstring \<Rightarrow> bool" where
  "id_pattern s \<longleftrightarrow> s \<noteq> [] \<and> list_all id_char s"

definition sanitizeId :: "jsval \<Rightarrow> jsstring option" where
  "sanitizeId input =
     (case input of
        JStr s \<Rightarrow>
          (let trimmed = slice0 (trim s) MAX_ID_LENGTH
           in if \<not> id_pattern trimmed then None
              else if trimmed = [] then None else Some trimmed)
      | _ \<Rightarrow> None)"

text \<open>
  \<open>!r\<close> for a result \<open>r\<close> of type \<open>string | null\<close>: null and the empty string are
  falsy.
\<close>

definition str_truthy :: "jsstring option \<Rightarrow> bool" where
  "str_truthy r = (case r of None \<Rightarrow> False | Some s \<Rightarrow> s \<noteq> [])"

text \<open>The comparison \<open>a < b\<close> of two numbers; \<open>a > b\<close> is \<open>num_less b a\<close>.\<close>

fun num_less :: "jsnum \<Rightarrow> jsnum \<Rightarrow> bool" where
  "num_less NaN b = False"
| "num_less a NaN = False"
| "num_less PosInfinity b = False"
| "num_less a NegInfinity = False"
| "num_less NegInfinity b = True"
| "num_less a PosInfinity = True"
| "num_less (Finite a) (Finite b) = (a < b)"

fun isFinite :: "jsnum \<Rightarrow> bool" where
  "isFinite (Finite q) = True"
| "isFinite n = False"

text \<open>
  \<open>validateNumber(input, min, max)\<close>; a call without bounds passes \<open>NegInfinity\<close> and
  \<open>PosInfinity\<close>.
\<close>

definition validateNumber :: "jsval \<Rightarrow> jsnum \<Rightarrow> jsnum \<Rightarrow> jsnum option" where
  "validateNumber input min' max' =
     (case input of
        JNum n \<Rightarrow>
          if \<not> isFinite n then None
          else if num_less n min' \<or> num_less max' n then None
          else Some n
      | _ \<Rightarrow> None)"

subsection \<open>Payload types\<close>

datatype ComputerType = Tech | Magic | Hybrid
datatype AccessPointType = Physical | Remote | Magical
datatype NodeState = Locked | Active | Breached | Alarmed

text \<open>
  \<open>VALID_COMPUTER_TYPES.has(v)\<close> and its two siblings: \<open>v\<close> is one of the strings of the
  set, which the result names.
\<close>

definition computerType_of :: "jsval \<Rightarrow> ComputerType option" where
  "computerType_of v =
     (if v = JStr (js ''tech'') then Some Tech
      else if v = JStr (js ''magic'') then Some Magic
      else if v = JStr (js ''hybrid'') then Some Hybrid
      else None)"

definition accessPointType_of :: "jsval \<Rightarrow> AccessPointType option" where
  "accessPointType_of v =
     (if v = JStr (js ''physical'') then Some Physical
      else if v = JStr (js ''remote'') then Some Remote
      else if v = JStr (js ''magical'') then Some Magical
      else None)"

definition nodeState_of :: "jsval \<Rightarrow> NodeState option" where
  "nodeState_of v =
     (if v = JStr (js ''locked'') then Some Locked
      else if v = JStr (js ''active'') then Some Active
      else if v = JStr (js ''breached'') then Some Breached
      else if v = JStr (js ''alarmed'') then Some Alarmed
      else None)"

record Position =
  pos_x :: jsnum
  pos_y :: jsnum

record AccessPoint =
  ap_id :: jsstring
  ap_name :: jsstring
  ap_type :: AccessPointType
  ap_state :: NodeState
  ap_position :: Position
  ap_connectedTo :: "jsstring list"

record Computer =
  c_id :: jsstring
  c_name :: jsstring
  c_level :: jsnum
  c_type :: ComputerType
  c_description :: "jsstring option"
  c_accessPoints :: "AccessPoint list"

record NodeStateUpdate =
  ns_nodeId :: jsstring
  ns_state :: NodeState

datatype 'a ValidationResult = Valid 'a | Invalid string

text \<open>The decimal digits of a number, for the messages built from templates.\<close>

definition digit_char :: "nat \<Rightarrow> char" where
  "digit_char n = ''0123456789'' ! n"

fun show_nat :: "nat \<Rightarrow> string" where
  "show_nat n =
     (if n < 10 then [digit_char n] else show_nat (n div 10) @ [digit_char (n mod 10)])"

subsection \<open>Payload validators\<close>

definition validatePosition :: "heap \<Rightarrow> jsval \<Rightarrow> Position option" where
  "validatePosition h input =
     (if \<not> truthy input \<or> typeof input \<noteq> TObject then None
      else
        (let x = validateNumber (get_prop h input (js ''x''))
                   (Finite (- MAX_POSITION_VALUE)) (Finite MAX_POSITION_VALUE);
             y = validateNumber (get_prop h input (js ''y''))
                   (Finite (- MAX_POSITION_VALUE)) (Finite MAX_POSITION_VALUE)
         in case (x, y) of
              (Some x, Some y) \<Rightarrow> Some \<lparr>pos_x = x, pos_y = y\<rparr>
            | _ \<Rightarrow> None))"

text \<open>The loop over \<open>ap.connectedTo\<close>, with the array \<open>connectedTo\<close> built so far.\<close>

fun connectedTo_loop :: "jsval list \<Rightarrow> jsstring list \<Rightarrow> jsstring list option" where
  "connectedTo_loop [] connectedTo = Some connectedTo"
| "connectedTo_loop (conn # conns) connectedTo =
     (let sanitized = sanitizeId conn
      in if \<not> str_truthy sanitized then None
         else connectedTo_loop conns (connectedTo @ [the sanitized]))"

definition validateAccessPoint :: "heap \<Rightarrow> jsval \<Rightarrow> AccessPoint option" where
  "validateAccessPoint h input =
     (if \<not> truthy input \<or> typeof input \<noteq> TObject then None
      else
        (let id = sanitizeId (get_prop h input (js ''id''));
             name = sanitizeString (get_prop h input (js ''name'')) MAX_NAME_LENGTH
         in if \<not> str_truthy id \<or> \<not> str_truthy name then None
            else
              (case accessPointType_of (get_prop h input (js ''type'')) of
                 None \<Rightarrow> None
               | Some ty \<Rightarrow>
                   (case nodeState_of (get_prop h input (js ''state'')) of
                      None \<Rightarrow> None
                    | Some st \<Rightarrow>
                        (case validatePosition h (get_prop h input (js ''position'')) of
                           None \<Rightarrow> None
                         | Some position \<Rightarrow>
                             (case as_array h (get_prop h input (js ''connectedTo'')) of
                                None \<Rightarrow> None
                              | Some conns \<Rightarrow>
                                  if length conns > MAX_CONNECTIONS_PER_NODE then None
                                  else
                                    (case connectedTo_loop conns [] of
                                       None \<Rightarrow> None
                                     | Some connectedTo \<Rightarrow>
                                         Some \<lparr>ap_id = the id, ap_name = the name,
                                               ap_type = ty, ap_state = st,
                                               ap_position = position,
                                               ap_connectedTo = connectedTo\<rparr>)))))))"

text \<open>
  The loop over \<open>comp.accessPoints\<close>, at index \<open>i\<close> with the array \<open>accessPoints\<close> built
  so far: the first element that does not validate ends it with the error message.
\<close>

fun accessPoints_loop ::
  "heap \<Rightarrow> jsval list \<Rightarrow> nat \<Rightarrow> AccessPoint list \<Rightarrow> string + AccessPoint list" where
  "accessPoints_loop h [] i accessPoints = Inr accessPoints"
| "accessPoints_loop h (v # vs) i accessPoints =
     (case validateAccessPoint h v of
        None \<Rightarrow> Inl (''Invalid access point at index '' @ show_nat i)
      | Some validated \<Rightarrow> accessPoints_loop h vs (Suc i) (accessPoints @ [validated]))"

text \<open>
  Each exported validator takes the store and gives it back with its result, so that what
  it assigns to the payload can be read off. A result built by an object literal of the
  source is a record; it holds no address of the store.
\<close>

definition validateComputer :: "jsval \<Rightarrow> heap \<Rightarrow> Computer ValidationResult \<times> heap" where
  "validateComputer input h =
     (if \<not> truthy input \<or> typeof input \<noteq> TObject then (Invalid ''Invalid computer object'', h)
      else
        (let id = sanitizeId (get_prop h input (js ''id''))
         in if \<not> str_truthy id then (Invalid ''Invalid or missing computer ID'', h)
         else
        (let name = sanitizeString (get_prop h input (js ''name'')) MAX_NAME_LENGTH
         in if \<not> str_truthy name then (Invalid ''Invalid or missing computer name'', h)
         else
        (case validateNumber (get_prop h input (js ''level'')) (Finite MIN_LEVEL) (Finite MAX_LEVEL) of
           None \<Rightarrow> (Invalid ''Level must be between -1 and 25'', h)
         | Some level \<Rightarrow>
        (case computerType_of (get_prop h input (js ''type'')) of
           None \<Rightarrow> (Invalid ''Invalid computer type'', h)
         | Some ty \<Rightarrow>
        (let d = get_prop h input (js ''description'');
             sanitized = (if d \<noteq> JUndefined \<and> d \<noteq> JNull
                          then sanitizeString d MAX_DESCRIPTION_LENGTH else None);
             description = (if str_truthy sanitized then sanitized else None)
         in
        (case as_array h (get_prop h input (js ''accessPoints'')) of
           None \<Rightarrow> (Invalid ''accessPoints must be an array'', h)
         | Some aps \<Rightarrow>
             if length aps > MAX_ACCESS_POINTS
             then (Invalid (''Too many access points (max '' @ show_nat MAX_ACCESS_POINTS @ '')''), h)
             else
               (case accessPoints_loop h aps 0 [] of
                  Inl e \<Rightarrow> (Invalid e, h)
                | Inr accessPoints \<Rightarrow>
                    (Valid \<lparr>c_id = the id, c_name = the name, c_level = level, c_type = ty,
                            c_description = description, c_accessPoints = accessPoints\<rparr>, h)))))))))"

definition validateNodeStatePayload ::
  "jsval \<Rightarrow> heap \<Rightarrow> NodeStateUpdate ValidationResult \<times> heap" where
  "validateNodeStatePayload input h =
     (if \<not> truthy input \<or> typeof input \<noteq> TObject then (Invalid ''Invalid node-state payload'', h)
      else
        (let nodeId = sanitizeId (get_prop h input (js ''nodeId''))
         in if \<not> str_truthy nodeId then (Invalid ''Invalid node ID'', h)
            else
              (case nodeState_of (get_prop h input (js ''state'')) of
                 None \<Rightarrow> (Invalid ''Invalid node state'', h)
               | Some st \<Rightarrow> (Valid \<lparr>ns_nodeId = the nodeId, ns_state = st\<rparr>, h))))"

text \<open>
  The value of a focus result is \<open>{nodeId: string | null}\<close>, that of an intensity result
  \<open>{value: number}\<close>; each is represented by its one field.
\<close>

definition validateFocusPayload ::
  "jsval \<Rightarrow> heap \<Rightarrow> jsstring option ValidationResult \<times> heap" where
  "validateFocusPayload input h =
     (if \<not> truthy input \<or> typeof input \<noteq> TObject then (Invalid ''Invalid focus payload'', h)
      else if get_prop h input (js ''nodeId'') = JNull then (Valid None, h)
      else
        (let nodeId = sanitizeId (get_prop h input (js ''nodeId''))
         in if \<not> str_truthy nodeId then (Invalid ''Invalid node ID'', h)
            else (Valid nodeId, h)))"

definition validateIntensityPayload ::
  "jsval \<Rightarrow> heap \<Rightarrow> jsnum ValidationResult \<times> heap" where
  "validateIntensityPayload input h =
     (if \<not> truthy input \<or> typeof input \<noteq> TObject then (Invalid ''Invalid intensity payload'', h)
      else
        (case validateNumber (get_prop h input (js ''value''))
                (Finite MIN_INTENSITY) (Finite MAX_INTENSITY) of
           None \<Rightarrow> (Invalid ''Intensity must be between 0 and 1'', h)
         | Some v \<Rightarrow> (Valid v, h)))"

definition validTypes :: "jsstring list" where
  "validTypes =
     [js ''effect'', js ''node-state'', js ''focus'', js ''intensity'',
      js ''computer'', js ''clear-effects'', js ''ping'', js ''init'', js ''pong'']"

definition validateMessageType :: "jsval \<Rightarrow> jsstring option" where
  "validateMessageType input =
     (case input of
        JStr s \<Rightarrow> if s \<in> set validTypes then Some s else None
      | _ \<Rightarrow> None)"

text \<open>
  \<open>validateEffectPayload\<close> assigns the sanitized \<open>nodeId\<close> and \<open>effectType\<close> to the payload
  it was given and returns that payload: the value of its result is the input reference,
  and the store it gives back holds the assignments made up to the return.
\<close>

definition validateEffectPayload :: "jsval \<Rightarrow> heap \<Rightarrow> jsval ValidationResult \<times> heap" where
  "validateEffectPayload input h =
     (if \<not> truthy input \<or> typeof input \<noteq> TObject then (Invalid ''Invalid effect payload'', h)
      else
        (case
           (if get_prop h input (js ''nodeId'') \<noteq> JUndefined
            then
              (let nodeId = sanitizeId (get_prop h input (js ''nodeId''))
               in if \<not> str_truthy nodeId then Inl ''Invalid effect nodeId''
                  else Inr (set_prop h input (js ''nodeId'') (JStr (the nodeId))))
            else Inr h) of
           Inl e \<Rightarrow> (Invalid e, h)
         | Inr h1 \<Rightarrow>
             (case
                (if get_prop h1 input (js ''effectType'') \<noteq> JUndefined
                 then
                   (let effectType = sanitizeString (get_prop h1 input (js ''effectType'')) 50
                    in if \<not> str_truthy effectType then Inl ''Invalid effect type''
                       else Inr (set_prop h1 input (js ''effectType'') (JStr (the effectType))))
                 else Inr h1) of
                Inl e \<Rightarrow> (Invalid e, h1)
              | Inr h2 \<Rightarrow> (Valid input, h2))))"

section \<open>Admission and routing: the worker's \<open>fetch\<close>\<close>

text \<open>
  A request as \<open>fetch\<close> reads it: the method, the path and query parameters of its URL,
  and its headers (one entry per header, the name in lower case, as the Fetch API keeps
  them).
\<close>

record Request =
  req_method :: jsstring
  req_pathname :: jsstring
  req_searchParams :: "(jsstring \<times> jsstring) list"
  req_headers :: "(jsstring \<times> jsstring) list"

record Env =
  ALLOWED_ORIGINS :: "jsstring option"
  GM_SECRET :: "jsstring option"

text \<open>\<open>URLSearchParams.get\<close> gives the first value of a name, or null.\<close>

definition searchParams_get :: "(jsstring \<times> jsstring) list \<Rightarrow> jsstring \<Rightarrow> jsstring option" where
  "searchParams_get ps k = map_of ps k"

text \<open>
  \<open>URLSearchParams.set\<close> gives the first entry of the name the new value and deletes its
  other entries; a name that is absent is appended.
\<close>

definition searchParams_set ::
  "(jsstring \<times> jsstring) list \<Rightarrow> jsstring \<Rightarrow> jsstring \<Rightarrow> (jsstring \<times> jsstring) list" where
  "searchParams_set ps k v =
     (if k \<in> fst ` set ps
      then takeWhile (\<lambda>p. fst p \<noteq> k) ps @ (k, v) #
             filter (\<lambda>p. fst p \<noteq> k) (tl (dropWhile (\<lambda>p. fst p \<noteq> k) ps))
      else ps @ [(k, v)])"

definition headers_get :: "(jsstring \<times> jsstring) list \<Rightarrow> jsstring \<Rightarrow> jsstring option" where
  "headers_get hs k = map_of hs k"

text \<open>\<open>a || b\<close> on two values of type \<open>string | null\<close>.\<close>

definition or_else :: "jsstring option \<Rightarrow> jsstring option \<Rightarrow> jsstring option" where
  "or_else a b = (if str_truthy a then a else b)"

text \<open>The class \<open>[a-zA-Z0-9-]\<close> of the route, and the match of \<open>/^\/ws\/([a-zA-Z0-9-]+)/\<close>.\<close>

definition session_char :: "jschar \<Rightarrow> bool" where
  "session_char c \<longleftrightarrow>
     (0x61 \<le> c \<and> c \<le> 0x7A) \<or> (0x41 \<le> c \<and> c \<le> 0x5A) \<or> (0x30 \<le> c \<and> c \<le> 0x39) \<or> c = 0x2D"

definition wsMatch :: "jsstring \<Rightarrow> jsstring option" where
  "wsMatch pathname =
     (if take 4 pathname = js ''/ws/'' \<and> takeWhile session_char (drop 4 pathname) \<noteq> []
      then Some (takeWhile session_char (drop 4 pathname))
      else None)"

text \<open>
  A response is its status and body; the CORS and content-type headers, and the time
  stamp of the health report, are left out. \<open>StubFetch sessionId doRequest\<close> is the call
  \<open>stub.fetch(doRequest)\<close> on the Durable Object named \<open>sessionId\<close>, the only contact
  with the session object, which is where the socket is upgraded.
\<close>

datatype Body = NoBody | Json "(string \<times> string) list" | Text string

datatype FetchResult =
    Respond nat Body
  | StubFetch jsstring Request

definition show_bool :: "bool \<Rightarrow> string" where
  "show_bool b = (if b then ''true'' else ''false'')"

definition fetch :: "Request \<Rightarrow> Env \<Rightarrow> FetchResult" where
  "fetch request env =
     (if req_method request = js ''OPTIONS'' then Respond 200 NoBody
      else
        (case wsMatch (req_pathname request) of
           Some sessionId \<Rightarrow>
             (let requestedRole = searchParams_get (req_searchParams request) (js ''role'')
              in case
                   (if requestedRole = Some (js ''gm'')
                    then
                      (if str_truthy (GM_SECRET env)
                       then
                         (let providedSecret =
                                or_else (headers_get (req_headers request) (js ''x-gm-secret''))
                                  (searchParams_get (req_searchParams request) (js ''secret''))
                          in if providedSecret \<noteq> GM_SECRET env
                             then Inl (Respond 401
                                    (Json [(''error'', ''UNAUTHORIZED''),
                                           (''message'', ''Invalid or missing GM secret'')]))
                             else Inr (js ''gm''))
                       else Inr (js ''gm''))
                    else Inr (js ''player'')) of
                   Inl response \<Rightarrow> response
                 | Inr role \<Rightarrow>
                     StubFetch sessionId
                       (request\<lparr>req_searchParams :=
                          searchParams_set (req_searchParams request) (js ''role'') role\<rparr>))
         | None \<Rightarrow>
             if req_pathname request = js ''/health'' \<or> req_pathname request = js ''/api/health''
             then Respond 200
                    (Json [(''status'', ''ok''), (''service'', ''hacking-sync''),
                           (''gmAuthEnabled'', show_bool (str_truthy (GM_SECRET env))),
                           (''corsRestricted'', show_bool (str_truthy (ALLOWED_ORIGINS env)))])
             else if req_pathname request = js ''/'' \<or> req_pathname request = []
             then Respond 302 NoBody
             else Respond 404 (Text ''Not Found'')))"

section \<open>Room coordinator: message dispatch\<close>

text \<open>
  The session object that the worker forwards to (\<open>HackingSession\<close>) is not among the
  sources. Its handling of one inbound message is modelled from the steps of the
  specification's message dispatch, on top of the validators above.
\<close>

text \<open>
  Modelled from the spec: the role a connection was admitted with (the session object's
  reading of the \<open>role\<close> parameter is missing); \<open>gm\<close> is the controller, \<open>player\<close> the
  observer.
\<close>

datatype Role = Controller | Observer

text \<open>
  Modelled from the spec: the authoritative room state of the missing session object,
  "an optional computer object, a focusedNodeId and ambientIntensity".
\<close>

record RoomState =
  computer :: "Computer option"
  focusedNodeId :: "jsstring option"
  ambientIntensity :: jsnum

text \<open>
  Modelled from the spec: a message the missing session object has accepted, with its
  validated payload.
\<close>

datatype Accepted =
    ComputerMsg Computer
  | NodeStateMsg NodeStateUpdate
  | FocusMsg "jsstring option"
  | IntensityMsg jsnum
  | EffectMsg jsval
  | ClearEffectsMsg

text \<open>
  Modelled from the spec: what the missing session object has done after one inbound
  message: the room state, the message handed to the broadcast engine (if any), the frame
  sent back to the sender (if any), whether the state is written to durable storage, and
  the store.
\<close>

record Dispatched =
  d_state :: RoomState
  d_broadcast :: "Accepted option"
  d_reply :: "jsstring option"
  d_persist :: bool
  d_heap :: heap

text \<open>
  Modelled from the spec: the referential check of the missing session object, from the
  invariant of the data model, "focusedNodeId, if non-null, must reference an id present
  in computer.accessPoints at the time it is set". Null references nothing and is always
  allowed; with no computer, no id is present.
\<close>

definition focus_target_present :: "RoomState \<Rightarrow> jsstring option \<Rightarrow> bool" where
  "focus_target_present st f =
     (case f of
        None \<Rightarrow> True
      | Some nodeId \<Rightarrow>
          (case computer st of
             None \<Rightarrow> False
           | Some c \<Rightarrow> nodeId \<in> set (map ap_id (c_accessPoints c))))"

text \<open>
  Modelled from the spec: step 2 and 4 of the missing dispatch, "route by type to the
  matching validator" and "run the Message Validator against the payload". A focus
  payload that \<open>validateFocusPayload\<close> accepts is rejected all the same when its id is not
  present in the room's computer, by the invariant of the data model. The types
  \<open>clear-effects\<close> and \<open>init\<close> have no validator in the sources: the first carries no
  payload and is accepted as it is, the second is sent by the server only and is dropped.
\<close>

definition validate_payload ::
  "jsstring \<Rightarrow> jsval \<Rightarrow> heap \<Rightarrow> RoomState \<Rightarrow> Accepted option \<times> heap" where
  "validate_payload t payload h st =
     (if t = js ''computer'' then
        (case validateComputer payload h of
           (Valid c, h') \<Rightarrow> (Some (ComputerMsg c), h') | (Invalid e, h') \<Rightarrow> (None, h'))
      else if t = js ''node-state'' then
        (case validateNodeStatePayload payload h of
           (Valid u, h') \<Rightarrow> (Some (NodeStateMsg u), h') | (Invalid e, h') \<Rightarrow> (None, h'))
      else if t = js ''focus'' then
        (case validateFocusPayload payload h of
           (Valid f, h') \<Rightarrow>
             if focus_target_present st f then (Some (FocusMsg f), h') else (None, h')
         | (Invalid e, h') \<Rightarrow> (None, h'))
      else if t = js ''intensity'' then
        (case validateIntensityPayload payload h of
           (Valid v, h') \<Rightarrow> (Some (IntensityMsg v), h') | (Invalid e, h') \<Rightarrow> (None, h'))
      else if t = js ''effect'' then
        (case validateEffectPayload payload h of
           (Valid p, h') \<Rightarrow> (Some (EffectMsg p), h') | (Invalid e, h') \<Rightarrow> (None, h'))
      else if t = js ''clear-effects'' then (Some ClearEffectsMsg, h)
      else (None, h))"

text \<open>
  Modelled from the spec: step 5 of the missing dispatch, "if the type is persistable,
  apply the mutation to RoomState"; the transient types change nothing. A focus is applied
  only when its id is present in the room's computer, as the invariant of the data model
  demands of the moment it is set.
\<close>

fun apply_mutation :: "Accepted \<Rightarrow> RoomState \<Rightarrow> RoomState" where
  "apply_mutation (ComputerMsg c) st = st\<lparr>computer := Some c\<rparr>"
| "apply_mutation (NodeStateMsg u) st =
     st\<lparr>computer :=
          map_option
            (\<lambda>c. c\<lparr>c_accessPoints :=
                      map (\<lambda>ap. if ap_id ap = ns_nodeId u then ap\<lparr>ap_state := ns_state u\<rparr> else ap)
                        (c_accessPoints c)\<rparr>)
            (computer st)\<rparr>"
| "apply_mutation (FocusMsg f) st =
     (if focus_target_present st f then st\<lparr>focusedNodeId := f\<rparr> else st)"
| "apply_mutation (IntensityMsg v) st = st\<lparr>ambientIntensity := v\<rparr>"
| "apply_mutation (EffectMsg p) st = st"
| "apply_mutation ClearEffectsMsg st = st"

text \<open>
  Modelled from the spec: the persistence class of a message of the missing dispatch,
  persistable (\<open>computer\<close>, \<open>node-state\<close>, \<open>focus\<close>, \<open>intensity\<close>) or transient.
\<close>

fun persistable :: "Accepted \<Rightarrow> bool" where
  "persistable (EffectMsg p) = False"
| "persistable ClearEffectsMsg = False"
| "persistable m = True"

text \<open>
  Modelled from the spec: the missing session object's handling of one inbound message,
  steps 1 to 6 of the message dispatch: an unrecognized type is discarded; \<open>ping\<close> is
  answered with \<open>pong\<close> and \<open>pong\<close> is discarded; any other type from an observer is
  rejected; a payload the validator rejects changes nothing; an accepted message is
  applied when persistable and then broadcast.
\<close>

definition handleMessage :: "Role \<Rightarrow> jsval \<Rightarrow> jsval \<Rightarrow> heap \<Rightarrow> RoomState \<Rightarrow> Dispatched" where
  "handleMessage role ty payload h st =
     (case validateMessageType ty of
        None \<Rightarrow> \<lparr>d_state = st, d_broadcast = None, d_reply = None, d_persist = False, d_heap = h\<rparr>
      | Some t \<Rightarrow>
          if t = js ''ping'' then
            \<lparr>d_state = st, d_broadcast = None, d_reply = Some (js ''pong''),
             d_persist = False, d_heap = h\<rparr>
          else if t = js ''pong'' then
            \<lparr>d_state = st, d_broadcast = None, d_reply = None, d_persist = False, d_heap = h\<rparr>
          else if role = Observer then
            \<lparr>d_state = st, d_broadcast = None, d_reply = None, d_persist = False, d_heap = h\<rparr>
          else
            (case validate_payload t payload h st of
               (None, h') \<Rightarrow>
                 \<lparr>d_state = st, d_broadcast = None, d_reply = None, d_persist = False,
                  d_heap = h'\<rparr>
             | (Some m, h') \<Rightarrow>
                 \<lparr>d_state = apply_mutation m st, d_broadcast = Some m, d_reply = None,
                  d_persist = persistable m, d_heap = h'\<rparr>))"

section \<open>Notions of the specification\<close>

text \<open>The ASCII control characters: U+0000 to U+001F, and U+007F.\<close>

definition ascii_control :: "jschar \<Rightarrow> bool" where
  "ascii_control c \<longleftrightarrow> c < 0x20 \<or> c = 0x7F"

text \<open>
  The fields of a computer payload other than its access points: the payload is an
  object, and its id, name, level and type pass the checks that \<open>validateComputer\<close> makes
  before it looks at \<open>accessPoints\<close>.
\<close>

definition header_fields_valid :: "heap \<Rightarrow> jsval \<Rightarrow> bool" where
  "header_fields_valid h input \<longleftrightarrow>
     truthy input \<and> typeof input = TObject \<and>
     str_truthy (sanitizeId (get_prop h input (js ''id''))) \<and>
     str_truthy (sanitizeString (get_prop h input (js ''name'')) MAX_NAME_LENGTH) \<and>
     validateNumber (get_prop h input (js ''level'')) (Finite MIN_LEVEL) (Finite MAX_LEVEL) \<noteq> None \<and>
     computerType_of (get_prop h input (js ''type'')) \<noteq> None"

section \<open>Concrete inputs\<close>

text \<open>
  The computer of the repository's tests with \<open>n\<close> access points, built as the tests
  build it: the array holds \<open>n\<close> references to one access point.
\<close>

definition computer_heap :: "nat \<Rightarrow> heap" where
  "computer_heap n =
     Map.empty
       (0 \<mapsto> JObject [(js ''id'', JStr (js ''comp-1'')), (js ''name'', JStr (js ''Test Computer'')),
                      (js ''level'', JNum (Finite 5)), (js ''type'', JStr (js ''tech'')),
                      (js ''accessPoints'', JRef 1)],
        1 \<mapsto> JArray (replicate n (JRef 2)),
        2 \<mapsto> JObject [(js ''id'', JStr (js ''ap-1'')), (js ''name'', JStr (js ''Main Access'')),
                      (js ''type'', JStr (js ''physical'')), (js ''state'', JStr (js ''locked'')),
                      (js ''position'', JRef 3), (js ''connectedTo'', JRef 4)],
        3 \<mapsto> JObject [(js ''x'', JNum (Finite 100)), (js ''y'', JNum (Finite 200))],
        4 \<mapsto> JArray [JStr (js ''ap-2'')])"

text \<open>
  The payloads \<open>{value: 1}\<close>, \<open>{nodeId: " ab "}\<close>, \<open>{nodeId: "ghost"}\<close> and
  \<open>{nodeId: "ap-1"}\<close>, at address 0.
\<close>

definition intensity_heap :: heap where
  "intensity_heap = Map.empty(0 \<mapsto> JObject [(js ''value'', JNum (Finite 1))])"

definition effect_heap :: heap where
  "effect_heap = Map.empty(0 \<mapsto> JObject [(js ''nodeId'', JStr (js '' ab ''))])"

definition focus_heap :: heap where
  "focus_heap = Map.empty(0 \<mapsto> JObject [(js ''nodeId'', JStr (js ''ghost''))])"


text \<open>A room whose computer has the one access point \<open>ap-1\<close>, and nothing focused.\<close>

definition focus_room :: RoomState where
  "focus_room =
     \<lparr>computer =
        Some \<lparr>c_id = js ''comp-1'', c_name = js ''Test Computer'', c_level = Finite 5,
              c_type = Tech, c_description = None,
              c_accessPoints =
                [\<lparr>ap_id = js ''ap-1'', ap_name = js ''Main Access'', ap_type = Physical,
                  ap_state = Locked, ap_position = \<lparr>pos_x = Finite 100, pos_y = Finite 200\<rparr>,
                  ap_connectedTo = []\<rparr>]\<rparr>,
      focusedNodeId = None, ambientIntensity = Finite 0\<rparr>"

text \<open>
  Requests for \<open>/ws/room-1\<close> asking for the role \<open>gm\<close> and for the role \<open>admin\<close>, with no
  secret supplied; a deployment without a controller secret and one with the secret
  \<open>s3cret\<close>.
\<close>

definition gm_request :: Request where
  "gm_request =
     \<lparr>req_method = js ''GET'', req_pathname = js ''/ws/room-1'',
      req_searchParams = [(js ''role'', js ''gm'')], req_headers = []\<rparr>"

definition admin_request :: Request where
  "admin_request =
     \<lparr>req_method = js ''GET'', req_pathname = js ''/ws/room-1'',
      req_searchParams = [(js ''role'', js ''admin'')], req_headers = []\<rparr>"

definition open_env :: Env where
  "open_env = \<lparr>ALLOWED_ORIGINS = None, GM_SECRET = None\<rparr>"

definition secret_env :: Env where
  "secret_env = \<lparr>ALLOWED_ORIGINS = None, GM_SECRET = Some (js ''s3cret'')\<rparr>"

declare show_nat.simps [simp del]

section \<open>Properties of the sanitizers\<close>

lemma set_replace_all: "set (replace_all c rep s) \<subseteq> (set s - {c}) \<union> set rep"
  by (auto simp: replace_all_def split: if_splits)

lemma replace_all_absent:
  "d \<notin> set rep \<Longrightarrow> d = c \<or> d \<notin> set s \<Longrightarrow> d \<notin> set (replace_all c rep s)"
  using set_replace_all by fastforce

lemma set_trim: "set (trim s) \<subseteq> set s"
  by (auto simp: trim_def dest!: set_dropWhileD)

lemma set_slice0: "set (slice0 s n) \<subseteq> set s"
  by (auto simp: slice0_def dest: in_set_takeD)

lemma length_slice0: "0 \<le> n \<Longrightarrow> int (length (slice0 s n)) \<le> n"
  by (simp add: slice0_def)

lemma control_char_iff:
  "control_char c \<longleftrightarrow> ascii_control c \<and> c \<noteq> 0x09 \<and> c \<noteq> 0x0A \<and> c \<noteq> 0x0D"
  unfolding control_char_def ascii_control_def
  by (simp add: word_le_nat_alt word_less_nat_alt word_unat_eq_iff) arith

lemma escape_html_no_markup:
  "0x3C \<notin> set (escape_html s)" "0x3E \<notin> set (escape_html s)"
  "0x22 \<notin> set (escape_html s)" "0x27 \<notin> set (escape_html s)"
  unfolding escape_html_def
  by (intro replace_all_absent; simp add: js_def)+

lemma escape_html_control:
  assumes "\<forall>c\<in>set s. \<not> control_char c"
  shows "\<forall>c\<in>set (escape_html s). \<not> control_char c"
proof -
  have step: "\<And>c rep t. \<forall>x\<in>set rep. \<not> control_char x \<Longrightarrow> \<forall>x\<in>set t. \<not> control_char x
      \<Longrightarrow> \<forall>x\<in>set (replace_all c rep t). \<not> control_char x"
    using set_replace_all by fastforce
  show ?thesis
    unfolding escape_html_def
    by (intro step assms; simp add: js_def control_char_def)
qed

text \<open>
  C9, as amended. For every input and every maximum length that is not negative,
  \<open>sanitizeString\<close> returns null or a string that is not empty, is at most the maximum
  length long, holds none of the characters \<open><\<close>, \<open>>\<close>, double quote and single quote,
  and holds no ASCII control character other than tab, line feed and carriage return.
\<close>

theorem sanitizeString_output:
  assumes "0 \<le> maxLength" and "sanitizeString input maxLength = Some s"
  shows "s \<noteq> [] \<and> int (length s) \<le> maxLength \<and>
     (\<forall>c\<in>set s. c \<noteq> 0x3C \<and> c \<noteq> 0x3E \<and> c \<noteq> 0x22 \<and> c \<noteq> 0x27 \<and>
        (ascii_control c \<longrightarrow> c = 0x09 \<or> c = 0x0A \<or> c = 0x0D))"
proof -
  from assms(2) obtain t where input: "input = JStr t"
    by (cases input) (simp_all add: sanitizeString_def)
  define e where "e = escape_html (filter (\<lambda>c. \<not> control_char c) t)"
  from assms(2) input have s: "s = slice0 (trim e) maxLength" and ne: "s \<noteq> []"
    by (auto simp: sanitizeString_def e_def Let_def split: if_splits)
  have sub: "set s \<subseteq> set e"
    using set_slice0 set_trim unfolding s by blast
  have ctl: "\<forall>c\<in>set e. \<not> control_char c"
    unfolding e_def by (rule escape_html_control) simp
  have len: "int (length s) \<le> maxLength"
    unfolding s by (rule length_slice0) (rule assms(1))
  have mk: "0x3C \<notin> set e" "0x3E \<notin> set e" "0x22 \<notin> set e" "0x27 \<notin> set e"
    unfolding e_def by (rule escape_html_no_markup)+
  have ctl': "\<forall>c\<in>set e. ascii_control c \<longrightarrow> c = 0x09 \<or> c = 0x0A \<or> c = 0x0D"
    using ctl unfolding control_char_iff by blast
  show ?thesis
    using ne len sub ctl' mk by blast
qed

theorem sanitizeString_output_witness:
  "(0::int) \<le> 10 \<and>
   sanitizeString (JStr (js '' <b>it's</b> '')) 10 = Some (js ''&lt;b&gt;i'') \<and>
   js ''&lt;b&gt;i'' \<noteq> [] \<and> int (length (js ''&lt;b&gt;i'')) \<le> 10 \<and>
   0x3C \<notin> set (js ''&lt;b&gt;i'') \<and> 0x3E \<notin> set (js ''&lt;b&gt;i'') \<and>
   0x22 \<notin> set (js ''&lt;b&gt;i'') \<and> 0x27 \<notin> set (js ''&lt;b&gt;i'')"
proof -
  have bound: "(0::int) \<le> 10"
    by simp
  have run: "sanitizeString (JStr (js '' <b>it's</b> '')) 10 = Some (js ''&lt;b&gt;i'')"
    by code_simp
  show ?thesis
    using bound run sanitizeString_output [OF bound run] by blast
qed

text \<open>
  C9 as stated fails twice. The string \<open>a\rb\<close> is returned as it is: it holds a carriage
  return, an ASCII control character that is neither tab nor newline. With the maximum
  length \<open>-1\<close>, \<open>slice\<close> drops the last character only: \<open>ab\<close> gives \<open>a\<close>, which is longer
  than the maximum.
\<close>

theorem sanitizeString_counterexample:
  "sanitizeString (JStr [0x61, 0x0D, 0x62]) 500 = Some [0x61, 0x0D, 0x62] \<and>
   ascii_control 0x0D \<and> (0x0D :: jschar) \<noteq> 0x09 \<and> (0x0D :: jschar) \<noteq> 0x0A \<and>
   sanitizeString (JStr [0x61, 0x62]) (- 1) = Some [0x61] \<and>
   \<not> int (length [0x61 :: jschar]) \<le> - 1"
proof -
  have "sanitizeString (JStr [0x61, 0x0D, 0x62]) 500 = Some [0x61, 0x0D, 0x62]"
    by code_simp
  moreover have "sanitizeString (JStr [0x61, 0x62]) (- 1) = Some [0x61]"
    by code_simp
  ultimately show ?thesis
    by (simp add: ascii_control_def)
qed

lemma id_char_not_space: "id_char c \<Longrightarrow> \<not> white_space c"
  unfolding id_char_def white_space_def
  by (simp add: word_le_nat_alt word_less_nat_alt word_unat_eq_iff) arith

lemma trim_id:
  assumes "id_pattern s"
  shows "trim s = s"
proof -
  from assms have ne: "s \<noteq> []" and all: "\<forall>c\<in>set s. \<not> white_space c"
    by (auto simp: id_pattern_def list_all_iff dest: id_char_not_space)
  have "dropWhile white_space s = s"
    using ne all by (simp add: dropWhile_eq_self_iff)
  moreover have "dropWhile white_space (rev s) = rev s"
    using ne all by (simp add: dropWhile_eq_self_iff hd_rev)
  ultimately show ?thesis
    by (simp add: trim_def)
qed

lemma sanitizeId_accepted:
  assumes "sanitizeId input = Some s"
  shows "id_pattern s" and "length s \<le> 50"
proof -
  from assms obtain t where input: "input = JStr t"
    by (cases input) (simp_all add: sanitizeId_def)
  from assms input show "id_pattern s"
    by (auto simp: sanitizeId_def Let_def split: if_splits)
  from assms input have "s = slice0 (trim t) MAX_ID_LENGTH"
    by (auto simp: sanitizeId_def Let_def split: if_splits)
  then show "length s \<le> 50"
    by (simp add: slice0_def MAX_ID_LENGTH_def)
qed

text \<open>
  C10. Whenever \<open>sanitizeId\<close> returns a string \<open>s\<close>, \<open>s\<close> matches \<open>^[a-zA-Z0-9_-]+$\<close>, is at
  most 50 characters long, and \<open>sanitizeId\<close> returns \<open>s\<close> on \<open>s\<close>.
\<close>

theorem sanitizeId_idempotent:
  assumes "sanitizeId input = Some s"
  shows "id_pattern s \<and> length s \<le> 50 \<and> sanitizeId (JStr s) = Some s"
proof -
  have pat: "id_pattern s" and len: "length s \<le> 50"
    using sanitizeId_accepted [OF assms] by simp_all
  have "slice0 (trim s) MAX_ID_LENGTH = s"
    using len by (simp add: trim_id[OF pat] slice0_def MAX_ID_LENGTH_def)
  then show ?thesis
    using pat len by (simp add: sanitizeId_def id_pattern_def)
qed

theorem sanitizeId_idempotent_witness:
  "sanitizeId (JStr (js ''  abc-123_XYZ '')) = Some (js ''abc-123_XYZ'') \<and>
   id_pattern (js ''abc-123_XYZ'') \<and> length (js ''abc-123_XYZ'') \<le> 50 \<and>
   sanitizeId (JStr (js ''abc-123_XYZ'')) = Some (js ''abc-123_XYZ'')"
proof -
  have run: "sanitizeId (JStr (js ''  abc-123_XYZ '')) = Some (js ''abc-123_XYZ'')"
    by code_simp
  show ?thesis
    using run sanitizeId_idempotent [OF run] by blast
qed

section \<open>Properties of the payload validators\<close>

lemma validTypes_set:
  "set validTypes =
     {js ''init'', js ''computer'', js ''node-state'', js ''focus'', js ''intensity'',
      js ''effect'', js ''clear-effects'', js ''ping'', js ''pong''}"
  unfolding validTypes_def by (simp add: insert_commute)

lemma validateMessageType_Some:
  "validateMessageType input = Some s \<longleftrightarrow> input = JStr s \<and> s \<in> set validTypes"
  by (cases input) (auto simp: validateMessageType_def)

lemma validateMessageType_None:
  "validateMessageType input = None \<longleftrightarrow> (\<forall>t\<in>set validTypes. input \<noteq> JStr t)"
  by (cases input) (auto simp: validateMessageType_def)

text \<open>
  C8. \<open>validateMessageType\<close> returns its input exactly when the input is one of the nine
  strings \<open>init\<close>, \<open>computer\<close>, \<open>node-state\<close>, \<open>focus\<close>, \<open>intensity\<close>, \<open>effect\<close>,
  \<open>clear-effects\<close>, \<open>ping\<close>, \<open>pong\<close>, and null on every other input, a string or not.
\<close>

theorem validateMessageType_recognized:
  "(validateMessageType input = Some s \<longleftrightarrow>
      input = JStr s \<and>
      s \<in> {js ''init'', js ''computer'', js ''node-state'', js ''focus'', js ''intensity'',
           js ''effect'', js ''clear-effects'', js ''ping'', js ''pong''}) \<and>
   (validateMessageType input = None \<longleftrightarrow>
      (\<forall>t \<in> {js ''init'', js ''computer'', js ''node-state'', js ''focus'', js ''intensity'',
           js ''effect'', js ''clear-effects'', js ''ping'', js ''pong''}. input \<noteq> JStr t))"
  unfolding validTypes_set [symmetric]
  by (rule conjI, rule validateMessageType_Some, rule validateMessageType_None)

theorem validateMessageType_recognized_witness:
  "validateMessageType (JStr (js ''node-state'')) = Some (js ''node-state'') \<and>
   validateMessageType (JStr (js ''execute'')) = None \<and>
   validateMessageType (JNum (Finite 123)) = None"
proof -
  have a: "validateMessageType (JStr (js ''node-state'')) = Some (js ''node-state'')"
    using validateMessageType_recognized [of "JStr (js ''node-state'')" "js ''node-state''"]
    by simp
  have b: "validateMessageType (JStr (js ''execute'')) = None"
    by code_simp
  have c: "validateMessageType (JNum (Finite 123)) = None"
    using validateMessageType_recognized [of "JNum (Finite 123)" "[]"]
    by simp
  show ?thesis
    using a b c by simp
qed

lemma validateNumber_accepts:
  "validateNumber v (Finite lo) (Finite hi) = Some n \<longleftrightarrow>
     (\<exists>q. v = JNum (Finite q) \<and> n = Finite q \<and> lo \<le> q \<and> q \<le> hi)"
proof (cases v)
  case (JNum m)
  then show ?thesis
    by (cases m) (auto simp: validateNumber_def)
qed (simp_all add: validateNumber_def)

lemma get_prop_JNum:
  "get_prop h (JRef a) k = JNum n \<longleftrightarrow>
     (\<exists>kvs. h a = Some (JObject kvs) \<and> map_of kvs k = Some (JNum n))"
  by (auto simp: get_prop_def split: option.splits jsobj.splits)

lemma validateIntensityPayload_ref:
  "validateIntensityPayload (JRef a) h = (Valid v, h') \<longleftrightarrow>
     h' = h \<and> validateNumber (get_prop h (JRef a) (js ''value'')) (Finite 0) (Finite 1) = Some v"
  by (auto simp: validateIntensityPayload_def MIN_INTENSITY_def MAX_INTENSITY_def
      split: option.splits)

lemma validateIntensityPayload_Valid:
  "validateIntensityPayload input h = (Valid v, h') \<longleftrightarrow>
     h' = h \<and> (\<exists>a kvs q. input = JRef a \<and> h a = Some (JObject kvs) \<and>
        map_of kvs (js ''value'') = Some (JNum (Finite q)) \<and> v = Finite q \<and> 0 \<le> q \<and> q \<le> 1)"
proof (cases input)
  case (JRef a)
  show ?thesis
    unfolding JRef validateIntensityPayload_ref validateNumber_accepts
    by (auto simp: get_prop_JNum)
qed (auto simp: validateIntensityPayload_def)

lemma validateIntensityPayload_cases:
  "(\<exists>v. validateIntensityPayload input h = (Valid v, h)) \<or>
   validateIntensityPayload input h = (Invalid ''Invalid intensity payload'', h) \<or>
   validateIntensityPayload input h = (Invalid ''Intensity must be between 0 and 1'', h)"
  by (auto simp: validateIntensityPayload_def split: option.splits)

text \<open>
  C5. \<open>validateIntensityPayload\<close> accepts its input exactly when the input is an object
  whose \<open>value\<close> field is a finite number \<open>q\<close> with \<open>0 \<le> q \<le> 1\<close>; the accepted value is
  that number; on every other input the result is invalid, with one of the two error
  messages and no value.
\<close>

theorem validateIntensityPayload_accepts_iff:
  "((\<exists>v. fst (validateIntensityPayload input h) = Valid v) \<longleftrightarrow>
      (\<exists>a kvs q. input = JRef a \<and> h a = Some (JObject kvs) \<and>
         map_of kvs (js ''value'') = Some (JNum (Finite q)) \<and> 0 \<le> q \<and> q \<le> 1)) \<and>
   (\<forall>v. fst (validateIntensityPayload input h) = Valid v \<longrightarrow>
      get_prop h input (js ''value'') = JNum v) \<and>
   ((\<exists>v. fst (validateIntensityPayload input h) = Valid v) \<or>
    fst (validateIntensityPayload input h) = Invalid ''Invalid intensity payload'' \<or>
    fst (validateIntensityPayload input h) = Invalid ''Intensity must be between 0 and 1'')"
proof (intro conjI)
  have snd_h: "snd (validateIntensityPayload input h) = h"
    using validateIntensityPayload_cases [of input h] by auto
  have eq: "\<And>v. fst (validateIntensityPayload input h) = Valid v \<longleftrightarrow>
      validateIntensityPayload input h = (Valid v, h)"
    using snd_h by (metis prod.collapse fst_conv)
  show "(\<exists>v. fst (validateIntensityPayload input h) = Valid v) \<longleftrightarrow>
      (\<exists>a kvs q. input = JRef a \<and> h a = Some (JObject kvs) \<and>
         map_of kvs (js ''value'') = Some (JNum (Finite q)) \<and> 0 \<le> q \<and> q \<le> 1)"
    unfolding eq validateIntensityPayload_Valid by blast
  show "\<forall>v. fst (validateIntensityPayload input h) = Valid v \<longrightarrow>
      get_prop h input (js ''value'') = JNum v"
    unfolding eq validateIntensityPayload_Valid by (auto simp: get_prop_JNum)
  show "(\<exists>v. fst (validateIntensityPayload input h) = Valid v) \<or>
    fst (validateIntensityPayload input h) = Invalid ''Invalid intensity payload'' \<or>
    fst (validateIntensityPayload input h) = Invalid ''Intensity must be between 0 and 1''"
    using validateIntensityPayload_cases [of input h] by auto
qed

theorem validateIntensityPayload_accepts_iff_witness:
  "intensity_heap 0 = Some (JObject [(js ''value'', JNum (Finite 1))]) \<and>
   fst (validateIntensityPayload (JRef 0) intensity_heap) = Valid (Finite 1)"
proof -
  have obj: "intensity_heap 0 = Some (JObject [(js ''value'', JNum (Finite 1))])"
    by (simp add: intensity_heap_def)
  have "\<exists>a kvs q. JRef 0 = JRef a \<and> intensity_heap a = Some (JObject kvs) \<and>
         map_of kvs (js ''value'') = Some (JNum (Finite q)) \<and> 0 \<le> q \<and> q \<le> 1"
    using obj by (intro exI [of _ 0] exI [of _ "[(js ''value'', JNum (Finite 1))]"] exI [of _ 1]) simp
  then obtain v where v: "fst (validateIntensityPayload (JRef 0) intensity_heap) = Valid v"
    using validateIntensityPayload_accepts_iff [of "JRef 0" intensity_heap] by blast
  then have "get_prop intensity_heap (JRef 0) (js ''value'') = JNum v"
    using validateIntensityPayload_accepts_iff [of "JRef 0" intensity_heap] by blast
  then have "v = Finite 1"
    using obj by (simp add: get_prop_def)
  then show ?thesis
    using obj v by simp
qed

lemma validateComputer_heap: "snd (validateComputer input h) = h"
  by (simp add: validateComputer_def Let_def split: option.splits sum.splits)

lemma validateNodeStatePayload_heap: "snd (validateNodeStatePayload input h) = h"
  by (simp add: validateNodeStatePayload_def Let_def split: option.splits)

lemma validateFocusPayload_heap: "snd (validateFocusPayload input h) = h"
  by (simp add: validateFocusPayload_def Let_def)

lemma validateIntensityPayload_heap: "snd (validateIntensityPayload input h) = h"
  by (simp add: validateIntensityPayload_def split: option.splits)

lemma accessPoints_loop_all:
  "\<forall>v\<in>set vs. validateAccessPoint h v \<noteq> None \<Longrightarrow>
   accessPoints_loop h vs i acc = Inr (acc @ map (\<lambda>v. the (validateAccessPoint h v)) vs)"
  by (induction vs arbitrary: i acc) auto

lemma show_nat_MAX_ACCESS_POINTS: "show_nat MAX_ACCESS_POINTS = ''20''"
  by code_simp

lemma validateComputer_header:
  assumes "header_fields_valid h input"
    and "as_array h (get_prop h input (js ''accessPoints'')) = Some aps"
  shows "validateComputer input h =
     (if length aps > MAX_ACCESS_POINTS then (Invalid ''Too many access points (max 20)'', h)
      else case accessPoints_loop h aps 0 [] of
             Inl e \<Rightarrow> (Invalid e, h)
           | Inr accessPoints \<Rightarrow>
               (Valid \<lparr>c_id = the (sanitizeId (get_prop h input (js ''id''))),
                       c_name = the (sanitizeString (get_prop h input (js ''name'')) MAX_NAME_LENGTH),
                       c_level = the (validateNumber (get_prop h input (js ''level''))
                                        (Finite MIN_LEVEL) (Finite MAX_LEVEL)),
                       c_type = the (computerType_of (get_prop h input (js ''type''))),
                       c_description =
                         (let d = get_prop h input (js ''description'');
                              sanitized = (if d \<noteq> JUndefined \<and> d \<noteq> JNull
                                           then sanitizeString d MAX_DESCRIPTION_LENGTH else None)
                          in if str_truthy sanitized then sanitized else None),
                       c_accessPoints = accessPoints\<rparr>, h))"
  using assms
  by (auto simp: header_fields_valid_def validateComputer_def Let_def
      show_nat_MAX_ACCESS_POINTS split: sum.splits)

lemma validateComputer_too_many:
  assumes "as_array h (get_prop h input (js ''accessPoints'')) = Some aps"
    and "length aps > MAX_ACCESS_POINTS"
  shows "fst (validateComputer input h) \<in> Invalid `
     {''Invalid or missing computer ID'', ''Invalid or missing computer name'',
      ''Level must be between -1 and 25'', ''Invalid computer type'',
      ''Too many access points (max 20)''}"
proof -
  from assms(1) have "truthy input \<and> typeof input = TObject"
    by (cases input) (simp_all add: as_array_def get_prop_def)
  then show ?thesis
    using assms
    by (simp add: validateComputer_def Let_def show_nat_MAX_ACCESS_POINTS split: option.splits)
qed

text \<open>
  C4. Let the \<open>accessPoints\<close> of a computer payload be an array. If it has exactly 20
  elements, each of which validates, and the other fields of the payload are valid, then
  \<open>validateComputer\<close> returns valid, with the 20 validated access points. If it has more
  than 20 elements, \<open>validateComputer\<close> returns invalid with an error message and no
  value, and assigns nothing (the store is as it was); the message is
  \<open>Too many access points (max 20)\<close> when the other fields are valid, and that of the
  first failing field otherwise.
\<close>

theorem validateComputer_accessPoints_boundary:
  assumes "as_array h (get_prop h input (js ''accessPoints'')) = Some aps"
  shows
    "(length aps = 20 \<and> header_fields_valid h input \<and>
      (\<forall>v\<in>set aps. validateAccessPoint h v \<noteq> None) \<longrightarrow>
        (\<exists>c. validateComputer input h = (Valid c, h) \<and>
             c_accessPoints c = map (\<lambda>v. the (validateAccessPoint h v)) aps \<and>
             length (c_accessPoints c) = 20)) \<and>
     (length aps > 20 \<longrightarrow>
        fst (validateComputer input h) \<in> Invalid `
          {''Invalid or missing computer ID'', ''Invalid or missing computer name'',
           ''Level must be between -1 and 25'', ''Invalid computer type'',
           ''Too many access points (max 20)''} \<and>
        snd (validateComputer input h) = h \<and>
        (header_fields_valid h input \<longrightarrow>
           validateComputer input h = (Invalid ''Too many access points (max 20)'', h)))"
proof (intro conjI impI)
  assume a: "length aps = 20 \<and> header_fields_valid h input \<and>
      (\<forall>v\<in>set aps. validateAccessPoint h v \<noteq> None)"
  then have loop: "accessPoints_loop h aps 0 [] = Inr (map (\<lambda>v. the (validateAccessPoint h v)) aps)"
    using accessPoints_loop_all [of aps h 0 "[]"] by simp
  from a have "\<not> length aps > MAX_ACCESS_POINTS"
    by (simp add: MAX_ACCESS_POINTS_def)
  then show "\<exists>c. validateComputer input h = (Valid c, h) \<and>
             c_accessPoints c = map (\<lambda>v. the (validateAccessPoint h v)) aps \<and>
             length (c_accessPoints c) = 20"
    using a loop validateComputer_header [OF _ assms] by simp
next
  assume "length aps > 20"
  then show "fst (validateComputer input h) \<in> Invalid `
          {''Invalid or missing computer ID'', ''Invalid or missing computer name'',
           ''Level must be between -1 and 25'', ''Invalid computer type'',
           ''Too many access points (max 20)''}"
    using validateComputer_too_many [OF assms] by (simp add: MAX_ACCESS_POINTS_def)
next
  show "snd (validateComputer input h) = h"
    by (rule validateComputer_heap)
next
  assume "length aps > 20" and "header_fields_valid h input"
  then show "validateComputer input h = (Invalid ''Too many access points (max 20)'', h)"
    using validateComputer_header [OF _ assms] by (simp add: MAX_ACCESS_POINTS_def)
qed

theorem validateComputer_accessPoints_boundary_witness:
  "as_array (computer_heap 20) (get_prop (computer_heap 20) (JRef 0) (js ''accessPoints'')) =
     Some (replicate 20 (JRef 2)) \<and>
   (\<exists>c. validateComputer (JRef 0) (computer_heap 20) = (Valid c, computer_heap 20) \<and>
        length (c_accessPoints c) = 20) \<and>
   as_array (computer_heap 21) (get_prop (computer_heap 21) (JRef 0) (js ''accessPoints'')) =
     Some (replicate 21 (JRef 2)) \<and>
   validateComputer (JRef 0) (computer_heap 21) =
     (Invalid ''Too many access points (max 20)'', computer_heap 21)"
proof -
  have arr20: "as_array (computer_heap 20) (get_prop (computer_heap 20) (JRef 0) (js ''accessPoints'')) =
     Some (replicate 20 (JRef 2))"
    by code_simp
  have arr21: "as_array (computer_heap 21) (get_prop (computer_heap 21) (JRef 0) (js ''accessPoints'')) =
     Some (replicate 21 (JRef 2))"
    by code_simp
  have hdr20: "header_fields_valid (computer_heap 20) (JRef 0)"
    by code_simp
  have hdr21: "header_fields_valid (computer_heap 21) (JRef 0)"
    by code_simp
  have ap: "validateAccessPoint (computer_heap 20) (JRef 2) \<noteq> None"
    by code_simp
  have all20: "\<forall>v\<in>set (replicate 20 (JRef 2)). validateAccessPoint (computer_heap 20) v \<noteq> None"
    using ap by simp
  have "\<exists>c. validateComputer (JRef 0) (computer_heap 20) = (Valid c, computer_heap 20) \<and>
        length (c_accessPoints c) = 20"
    using validateComputer_accessPoints_boundary [OF arr20] hdr20 all20 by auto
  moreover have "validateComputer (JRef 0) (computer_heap 21) =
     (Invalid ''Too many access points (max 20)'', computer_heap 21)"
    using validateComputer_accessPoints_boundary [OF arr21] hdr21 by simp
  ultimately show ?thesis
    using arr20 arr21 by simp
qed

lemma set_prop_other_addr: "v \<noteq> JRef b \<Longrightarrow> set_prop h v k x b = h b"
  by (auto simp: set_prop_def split: jsval.splits option.splits jsobj.splits)

lemma get_prop_set_prop_same:
  "get_prop h v k \<noteq> JUndefined \<Longrightarrow> get_prop (set_prop h v k x) v k = x"
  by (auto simp: get_prop_def set_prop_def update_conv'
      split: jsval.splits option.splits jsobj.splits)

lemma get_prop_set_prop_other:
  "k' \<noteq> k \<Longrightarrow> get_prop (set_prop h v k x) v' k' = get_prop h v' k'"
  by (auto simp: get_prop_def set_prop_def update_conv'
      split: jsval.splits option.splits jsobj.splits)

lemma effect_keys_differ:
  "js ''nodeId'' \<noteq> js ''effectType''" "js ''effectType'' \<noteq> js ''nodeId''"
  by (simp_all add: js_def)

lemma str_truthy_Some: "str_truthy r \<Longrightarrow> \<exists>s. r = Some s"
  by (cases r) (simp_all add: str_truthy_def)

lemma validateEffectPayload_frame:
  "input \<noteq> JRef b \<Longrightarrow> snd (validateEffectPayload input h) b = h b"
  by (auto simp: validateEffectPayload_def Let_def set_prop_other_addr
      split: sum.splits if_splits)

lemma validateEffectPayload_Valid:
  assumes "fst (validateEffectPayload input h) = Valid v"
  shows "v = input"
    and "k \<noteq> js ''nodeId'' \<Longrightarrow> k \<noteq> js ''effectType'' \<Longrightarrow>
         get_prop (snd (validateEffectPayload input h)) input k = get_prop h input k"
    and "get_prop (snd (validateEffectPayload input h)) input (js ''nodeId'') =
           (if get_prop h input (js ''nodeId'') = JUndefined then JUndefined
            else JStr (the (sanitizeId (get_prop h input (js ''nodeId'')))))"
    and "get_prop (snd (validateEffectPayload input h)) input (js ''effectType'') =
           (if get_prop h input (js ''effectType'') = JUndefined then JUndefined
            else JStr (the (sanitizeString (get_prop h input (js ''effectType'')) 50)))"
    and "get_prop h input (js ''nodeId'') \<noteq> JUndefined \<Longrightarrow>
         str_truthy (sanitizeId (get_prop h input (js ''nodeId'')))"
    and "get_prop h input (js ''effectType'') \<noteq> JUndefined \<Longrightarrow>
         str_truthy (sanitizeString (get_prop h input (js ''effectType'')) 50)"
  using assms
  by (auto simp: validateEffectPayload_def Let_def get_prop_set_prop_other
      get_prop_set_prop_same effect_keys_differ split: sum.splits if_splits)

text \<open>
  C7, as amended. \<open>validateComputer\<close>, \<open>validateNodeStatePayload\<close>, \<open>validateFocusPayload\<close>
  and \<open>validateIntensityPayload\<close> assign nothing: the store is as it was, and their
  results are records built anew. \<open>validateEffectPayload\<close> changes no object other than
  its payload; when it accepts, the value it returns is the payload it was given, whose
  \<open>nodeId\<close> and \<open>effectType\<close>, where present, now hold their sanitized forms, every other
  property being as it was.
\<close>

theorem validators_store_effect:
  "snd (validateComputer input h) = h \<and>
   snd (validateNodeStatePayload input h) = h \<and>
   snd (validateFocusPayload input h) = h \<and>
   snd (validateIntensityPayload input h) = h \<and>
   (\<forall>b. input \<noteq> JRef b \<longrightarrow> snd (validateEffectPayload input h) b = h b) \<and>
   (\<forall>v. fst (validateEffectPayload input h) = Valid v \<longrightarrow>
      v = input \<and>
      (\<forall>k. k \<noteq> js ''nodeId'' \<and> k \<noteq> js ''effectType'' \<longrightarrow>
         get_prop (snd (validateEffectPayload input h)) input k = get_prop h input k) \<and>
      (get_prop h input (js ''nodeId'') = JUndefined \<and>
       get_prop (snd (validateEffectPayload input h)) input (js ''nodeId'') = JUndefined \<or>
       (\<exists>s. sanitizeId (get_prop h input (js ''nodeId'')) = Some s \<and>
          get_prop (snd (validateEffectPayload input h)) input (js ''nodeId'') = JStr s)) \<and>
      (get_prop h input (js ''effectType'') = JUndefined \<and>
       get_prop (snd (validateEffectPayload input h)) input (js ''effectType'') = JUndefined \<or>
       (\<exists>s. sanitizeString (get_prop h input (js ''effectType'')) 50 = Some s \<and>
          get_prop (snd (validateEffectPayload input h)) input (js ''effectType'') = JStr s)))"
proof (intro conjI allI impI)
  fix v
  assume v: "fst (validateEffectPayload input h) = Valid v"
  show "v = input"
    by (rule validateEffectPayload_Valid(1) [OF v])
  show "get_prop h input (js ''nodeId'') = JUndefined \<and>
       get_prop (snd (validateEffectPayload input h)) input (js ''nodeId'') = JUndefined \<or>
       (\<exists>s. sanitizeId (get_prop h input (js ''nodeId'')) = Some s \<and>
          get_prop (snd (validateEffectPayload input h)) input (js ''nodeId'') = JStr s)"
    using validateEffectPayload_Valid(3,5) [OF v]
      str_truthy_Some [of "sanitizeId (get_prop h input (js ''nodeId''))"]
    by (cases "get_prop h input (js ''nodeId'') = JUndefined") auto
  show "get_prop h input (js ''effectType'') = JUndefined \<and>
       get_prop (snd (validateEffectPayload input h)) input (js ''effectType'') = JUndefined \<or>
       (\<exists>s. sanitizeString (get_prop h input (js ''effectType'')) 50 = Some s \<and>
          get_prop (snd (validateEffectPayload input h)) input (js ''effectType'') = JStr s)"
    using validateEffectPayload_Valid(4,6) [OF v]
      str_truthy_Some [of "sanitizeString (get_prop h input (js ''effectType'')) 50"]
    by (cases "get_prop h input (js ''effectType'') = JUndefined") auto
  fix k
  assume "k \<noteq> js ''nodeId'' \<and> k \<noteq> js ''effectType''"
  then show "get_prop (snd (validateEffectPayload input h)) input k = get_prop h input k"
    using validateEffectPayload_Valid(2) [OF v] by simp
qed (simp_all add: validateComputer_heap validateNodeStatePayload_heap
    validateFocusPayload_heap validateIntensityPayload_heap validateEffectPayload_frame)

theorem validators_store_effect_witness:
  "fst (validateEffectPayload (JRef 0) effect_heap) = Valid (JRef 0) \<and>
   JRef 0 \<noteq> JRef 1 \<and>
   snd (validateEffectPayload (JRef 0) effect_heap) 1 = effect_heap 1 \<and>
   get_prop (snd (validateEffectPayload (JRef 0) effect_heap)) (JRef 0) (js ''effectType'') =
     JUndefined \<and>
   snd (validateComputer (JRef 0) effect_heap) = effect_heap"
proof -
  have run: "fst (validateEffectPayload (JRef 0) effect_heap) = Valid (JRef 0)"
    by code_simp
  have absent: "get_prop effect_heap (JRef 0) (js ''effectType'') = JUndefined"
    by code_simp
  have other: "JRef 0 \<noteq> JRef 1"
    by simp
  have none: "sanitizeString JUndefined 50 = None"
    by (simp add: sanitizeString_def)
  show ?thesis
    using run absent other none validators_store_effect [of "JRef 0" effect_heap]
    by auto
qed

text \<open>
  C7 as stated fails for \<open>validateEffectPayload\<close>: given the payload \<open>{nodeId: " ab "}\<close> it
  accepts, returns the payload itself, and the payload's \<open>nodeId\<close> is \<open>"ab"\<close> after the
  call.
\<close>

theorem validateEffectPayload_mutates_counterexample:
  "fst (validateEffectPayload (JRef 0) effect_heap) = Valid (JRef 0) \<and>
   get_prop effect_heap (JRef 0) (js ''nodeId'') = JStr (js '' ab '') \<and>
   get_prop (snd (validateEffectPayload (JRef 0) effect_heap)) (JRef 0) (js ''nodeId'') =
     JStr (js ''ab'') \<and>
   js '' ab '' \<noteq> js ''ab''"
  by code_simp

section \<open>Properties of admission\<close>

lemma role_entries_set:
  "map snd (filter (\<lambda>p. fst p = k) (searchParams_set ps k v)) = [v]"
proof (cases "k \<in> fst ` set ps")
  case True
  have "filter (\<lambda>p. fst p = k) (takeWhile (\<lambda>p. fst p \<noteq> k) ps) = []"
    by (auto simp: filter_empty_conv dest: set_takeWhileD)
  then show ?thesis
    using True by (simp add: searchParams_set_def)
next
  case False
  then have "filter (\<lambda>p. fst p = k) ps = []"
    by (auto simp: filter_empty_conv)
  then show ?thesis
    using False by (simp add: searchParams_set_def)
qed

lemma searchParams_get_set: "searchParams_get (searchParams_set ps k v) k = Some v"
proof (cases "k \<in> fst ` set ps")
  case True
  have "map_of (takeWhile (\<lambda>p. fst p \<noteq> k) ps) k = None"
    by (auto simp: map_of_eq_None_iff dest: set_takeWhileD)
  then show ?thesis
    using True by (simp add: searchParams_set_def searchParams_get_def map_add_def)
next
  case False
  then have "map_of ps k = None"
    by (simp add: map_of_eq_None_iff)
  then show ?thesis
    using False by (simp add: searchParams_set_def searchParams_get_def map_add_def)
qed

text \<open>
  C1. Take a request to \<open>/ws/{roomId}\<close> (any method but the preflight \<open>OPTIONS\<close>) whose
  \<open>role\<close> parameter is \<open>gm\<close>. If no controller secret is configured (\<open>GM_SECRET\<close> is unset
  or empty), it is forwarded to the session object with the role \<open>gm\<close>. If a secret is
  configured and the supplied secret (the header \<open>X-GM-Secret\<close> if it is there and not
  empty, the query parameter \<open>secret\<close> otherwise) is missing or differs from it, the
  answer is the 401 response with the code \<open>UNAUTHORIZED\<close>, and nothing is forwarded.
\<close>

theorem gm_admission:
  assumes "req_method request \<noteq> js ''OPTIONS''"
    and "wsMatch (req_pathname request) = Some sessionId"
    and "searchParams_get (req_searchParams request) (js ''role'') = Some (js ''gm'')"
  shows
    "(\<not> str_truthy (GM_SECRET env) \<longrightarrow>
        (\<exists>doRequest. fetch request env = StubFetch sessionId doRequest \<and>
           searchParams_get (req_searchParams doRequest) (js ''role'') = Some (js ''gm''))) \<and>
     (str_truthy (GM_SECRET env) \<and>
      or_else (headers_get (req_headers request) (js ''x-gm-secret''))
        (searchParams_get (req_searchParams request) (js ''secret'')) \<noteq> GM_SECRET env \<longrightarrow>
        fetch request env =
          Respond 401 (Json [(''error'', ''UNAUTHORIZED''),
                             (''message'', ''Invalid or missing GM secret'')]))"
  using assms by (simp add: fetch_def Let_def searchParams_get_set)

theorem gm_admission_witness:
  "req_method gm_request \<noteq> js ''OPTIONS'' \<and>
   wsMatch (req_pathname gm_request) = Some (js ''room-1'') \<and>
   searchParams_get (req_searchParams gm_request) (js ''role'') = Some (js ''gm'') \<and>
   (\<exists>doRequest. fetch gm_request open_env = StubFetch (js ''room-1'') doRequest \<and>
      searchParams_get (req_searchParams doRequest) (js ''role'') = Some (js ''gm'')) \<and>
   fetch gm_request secret_env =
     Respond 401 (Json [(''error'', ''UNAUTHORIZED''),
                        (''message'', ''Invalid or missing GM secret'')])"
proof -
  have m: "req_method gm_request \<noteq> js ''OPTIONS''"
    by code_simp
  have p: "wsMatch (req_pathname gm_request) = Some (js ''room-1'')"
    by code_simp
  have r: "searchParams_get (req_searchParams gm_request) (js ''role'') = Some (js ''gm'')"
    by code_simp
  have no_secret: "\<not> str_truthy (GM_SECRET open_env)"
    by code_simp
  have secret: "str_truthy (GM_SECRET secret_env) \<and>
      or_else (headers_get (req_headers gm_request) (js ''x-gm-secret''))
        (searchParams_get (req_searchParams gm_request) (js ''secret'')) \<noteq> GM_SECRET secret_env"
    by code_simp
  show ?thesis
    using m p r no_secret secret gm_admission [OF m p r, of open_env]
      gm_admission [OF m p r, of secret_env]
    by blast
qed

text \<open>
  C3. For every request to \<open>/ws/{roomId}\<close> that is not refused, the request handed to the
  session object has exactly one \<open>role\<close> parameter; it is \<open>gm\<close> exactly when the client
  asked for \<open>gm\<close> and the secret check, if a secret is configured, passed, and \<open>player\<close>
  in every other case, whatever role the client asked for. The only other outcome is the
  401 response, when the client asked for \<open>gm\<close> and the check failed.
\<close>

theorem confirmed_role:
  assumes "req_method request \<noteq> js ''OPTIONS''"
    and "wsMatch (req_pathname request) = Some sessionId"
  shows
    "(\<exists>doRequest. fetch request env = StubFetch sessionId doRequest \<and>
        map snd (filter (\<lambda>p. fst p = js ''role'') (req_searchParams doRequest)) =
          [if searchParams_get (req_searchParams request) (js ''role'') = Some (js ''gm'') \<and>
              (str_truthy (GM_SECRET env) \<longrightarrow>
                 or_else (headers_get (req_headers request) (js ''x-gm-secret''))
                   (searchParams_get (req_searchParams request) (js ''secret'')) = GM_SECRET env)
           then js ''gm'' else js ''player'']) \<or>
     (fetch request env =
        Respond 401 (Json [(''error'', ''UNAUTHORIZED''),
                           (''message'', ''Invalid or missing GM secret'')]) \<and>
      searchParams_get (req_searchParams request) (js ''role'') = Some (js ''gm'') \<and>
      str_truthy (GM_SECRET env) \<and>
      or_else (headers_get (req_headers request) (js ''x-gm-secret''))
        (searchParams_get (req_searchParams request) (js ''secret'')) \<noteq> GM_SECRET env)"
  using assms by (simp add: fetch_def Let_def role_entries_set)

theorem confirmed_role_witness:
  "req_method admin_request \<noteq> js ''OPTIONS'' \<and>
   wsMatch (req_pathname admin_request) = Some (js ''room-1'') \<and>
   (\<exists>doRequest. fetch admin_request secret_env = StubFetch (js ''room-1'') doRequest \<and>
      map snd (filter (\<lambda>p. fst p = js ''role'') (req_searchParams doRequest)) = [js ''player''])"
proof -
  have m: "req_method admin_request \<noteq> js ''OPTIONS''"
    by code_simp
  have p: "wsMatch (req_pathname admin_request) = Some (js ''room-1'')"
    by code_simp
  have r: "searchParams_get (req_searchParams admin_request) (js ''role'') \<noteq> Some (js ''gm'')"
    by code_simp
  show ?thesis
    using m p r confirmed_role [OF m p, of secret_env] by auto
qed

section \<open>Properties of message dispatch\<close>

lemma focus_type: "validateMessageType (JStr (js ''focus'')) = Some (js ''focus'')"
  by (simp add: validateMessageType_def validTypes_def)



text \<open>
  C2. A message of a recognized type other than \<open>ping\<close> and \<open>pong\<close> that comes from a
  connection admitted as observer leaves the room state as it was, is not broadcast and
  is not persisted.
\<close>

theorem observer_message_dropped:
  assumes "validateMessageType ty = Some t" and "t \<noteq> js ''ping''" and "t \<noteq> js ''pong''"
  shows "d_state (handleMessage Observer ty payload h st) = st \<and>
         d_broadcast (handleMessage Observer ty payload h st) = None \<and>
         d_persist (handleMessage Observer ty payload h st) = False"
  using assms by (simp add: handleMessage_def)

theorem observer_message_dropped_witness:
  "validateMessageType (JStr (js ''focus'')) = Some (js ''focus'') \<and>
   js ''focus'' \<noteq> js ''ping'' \<and> js ''focus'' \<noteq> js ''pong'' \<and>
   d_state (handleMessage Observer (JStr (js ''focus'')) (JRef 0) focus_heap focus_room) =
     focus_room \<and>
   d_broadcast (handleMessage Observer (JStr (js ''focus'')) (JRef 0) focus_heap focus_room) =
     None"
proof -
  have t: "validateMessageType (JStr (js ''focus'')) = Some (js ''focus'')"
    by (rule focus_type)
  have ne: "js ''focus'' \<noteq> js ''ping''" "js ''focus'' \<noteq> js ''pong''"
    by (simp_all add: js_def)
  show ?thesis
    using t ne observer_message_dropped [OF t ne, of "JRef 0" focus_heap focus_room] by simp
qed

lemma focus_unknown_id_dropped:
  "fst (validateFocusPayload (JRef 0) focus_heap) = Valid (Some (js ''ghost'')) \<and>
   d_state (handleMessage Controller (JStr (js ''focus'')) (JRef 0) focus_heap focus_room) =
     focus_room \<and>
   d_broadcast (handleMessage Controller (JStr (js ''focus'')) (JRef 0) focus_heap focus_room) =
     None"
  by code_simp



end
